theory Spec2Isabelle
  imports Main "HOL-Library.Word"
begin

section \<open>The sentiment-analysis page: \<^verbatim>\<open>src/frontend/script.js\<close>\<close>

text \<open>
  The script registers one click handler, \<^verbatim>\<open>handleAnalysis\<close>, on the Analyze button. The
  handler reads the URL input, validates it, posts it to the analysis service and renders
  either the counts or an error message. The page state it touches is a handful of DOM
  properties and one module variable, \<^verbatim>\<open>sentimentChart\<close>. All of it is modelled as one
  record that every function takes and returns.
\<close>

subsection \<open>Strings\<close>

text \<open>
  A JavaScript string is a sequence of UTF-16 code units. \<open>js\<close> embeds an ASCII literal.
\<close>

type_synonym jsstring = "16 word list"

definition js :: "string \<Rightarrow> jsstring" where
  "js cs = map (\<lambda>c. of_nat (of_char c)) cs"

text \<open>
  \<^verbatim>\<open>String.prototype.trim\<close> strips the code points of \<^verbatim>\<open>WhiteSpace\<close> (TAB, VT, FF, ZWNBSP and
  the Unicode category Zs) and of \<^verbatim>\<open>LineTerminator\<close> (LF, CR, LS, PS) from both ends. All of
  them lie in the basic plane, so the test is on single code units.
\<close>

definition isWhiteSpace :: "16 word \<Rightarrow> bool" where
  "isWhiteSpace c \<longleftrightarrow>
     c \<in> set [0x0009, 0x000B, 0x000C, 0xFEFF,
              0x0020, 0x00A0, 0x1680, 0x202F, 0x205F, 0x3000,
              0x000A, 0x000D, 0x2028, 0x2029]
     \<or> (0x2000 \<le> c \<and> c \<le> 0x200A)"

definition trim :: "jsstring \<Rightarrow> jsstring" where
  "trim s = rev (dropWhile isWhiteSpace (rev (dropWhile isWhiteSpace s)))"

subsection \<open>Values of the response body\<close>

text \<open>
  \<^verbatim>\<open>response.json()\<close> yields an arbitrary JSON value, and the script reads properties of it
  without checking its shape, so the model keeps the whole value. \<open>Undefined\<close> is what a
  missing property reads as; it never occurs inside a parsed body. An object keeps its
  members in the order of the text, and a repeated key takes its last value.

  Numbers: \<open>Fin n\<close> is the number with the integer value \<open>n\<close>. The service reports
  comment counts, and the model covers integer-valued numbers in the range in which a
  double is exact (magnitude up to \<open>2^53\<close>); there \<^verbatim>\<open>+\<close> is the integer sum and the decimal
  rendering is the plain digit string. Fractions are not modelled.
\<close>

datatype jsnum = NaN | Fin int

datatype jsval =
    Undefined
  | Null
  | Bool bool
  | Num jsnum
  | Str jsstring
  | Arr "jsval list"
  | Obj "(jsstring \<times> jsval) list"

datatype prim = PUndefined | PNull | PBool bool | PNum jsnum | PStr jsstring

text \<open>
  The exceptions of the program: an \<^verbatim>\<open>Error\<close> object with its message (the one thrown at
  line 43, and the rejections of \<^verbatim>\<open>fetch\<close> and \<^verbatim>\<open>response.json()\<close>), and the \<^verbatim>\<open>TypeError\<close>s the
  engine raises. The text of an engine's \<^verbatim>\<open>TypeError\<close> message is not fixed by the language,
  so it is a parameter \<open>eng\<close> of the handler.
\<close>

datatype type_error =
    NullProperty jsstring
  | NullDestructure
  | NotPrimitive

datatype exn = ErrorObj jsstring | TypeErr type_error

definition message_of :: "(type_error \<Rightarrow> jsstring) \<Rightarrow> exn \<Rightarrow> jsstring" where
  "message_of eng e = (case e of ErrorObj m \<Rightarrow> m | TypeErr t \<Rightarrow> eng t)"

text \<open>
  Property reads \<^verbatim>\<open>v.k\<close> for the three names the script uses (\<^verbatim>\<open>detail\<close>, \<^verbatim>\<open>positive\<close>,
  \<^verbatim>\<open>negative\<close>): no prototype defines them, so only an object's own members answer, and
  reading from \<^verbatim>\<open>null\<close> throws.
\<close>

definition own :: "(jsstring \<times> jsval) list \<Rightarrow> jsstring \<Rightarrow> jsval option" where
  "own kvs k = map_of (rev kvs) k"

fun get_prop :: "jsval \<Rightarrow> jsstring \<Rightarrow> type_error + jsval" where
  "get_prop Null k = Inl (NullProperty k)"
| "get_prop Undefined k = Inl (NullProperty k)"
| "get_prop (Obj kvs) k = Inr (case own kvs k of None \<Rightarrow> Undefined | Some v \<Rightarrow> v)"
| "get_prop v k = Inr Undefined"

fun truthy :: "jsval \<Rightarrow> bool" where
  "truthy Undefined = False"
| "truthy Null = False"
| "truthy (Bool b) = b"
| "truthy (Num NaN) = False"
| "truthy (Num (Fin n)) = (n \<noteq> 0)"
| "truthy (Str s) = (s \<noteq> [])"
| "truthy (Arr xs) = True"
| "truthy (Obj kvs) = True"

subsection \<open>Conversion to strings and the operator \<^verbatim>\<open>+\<close>\<close>

fun digits :: "nat \<Rightarrow> jsstring" where
  "digits n = (if n < 10 then [of_nat (48 + n)]
               else digits (n div 10) @ [of_nat (48 + n mod 10)])"

fun num_string :: "jsnum \<Rightarrow> jsstring" where
  "num_string NaN = js ''NaN''"
| "num_string (Fin n) = (if n < 0 then js ''-'' @ digits (nat (- n)) else digits (nat n))"

fun prim_string :: "prim \<Rightarrow> jsstring" where
  "prim_string PUndefined = js ''undefined''"
| "prim_string PNull = js ''null''"
| "prim_string (PBool b) = (if b then js ''true'' else js ''false'')"
| "prim_string (PNum n) = num_string n"
| "prim_string (PStr s) = s"

text \<open>
  \<^verbatim>\<open>ToPrimitive\<close> of a value that came out of \<^verbatim>\<open>JSON.parse\<close>. Nothing in such a value is
  callable. A plain object answers with \<^verbatim>\<open>Object.prototype.toString\<close>, that is
  \<^verbatim>\<open>[object Object]\<close>, unless it has a member of its own called \<^verbatim>\<open>toString\<close>, which hides
  that method and leaves no callable one: a \<^verbatim>\<open>TypeError\<close>. An array answers with
  \<^verbatim>\<open>join\<close>: its elements converted to strings (\<^verbatim>\<open>null\<close> gives the empty string) and
  separated by commas; the first element that throws ends the conversion.
\<close>

fun to_primitive :: "jsval \<Rightarrow> type_error + prim"
  and join_from :: "jsval list \<Rightarrow> type_error + jsstring"
  and elem_string :: "jsval \<Rightarrow> type_error + jsstring"
where
  "to_primitive Undefined = Inr PUndefined"
| "to_primitive Null = Inr PNull"
| "to_primitive (Bool b) = Inr (PBool b)"
| "to_primitive (Num n) = Inr (PNum n)"
| "to_primitive (Str s) = Inr (PStr s)"
| "to_primitive (Arr xs) =
     (case join_from xs of Inl e \<Rightarrow> Inl e | Inr s \<Rightarrow> Inr (PStr s))"
| "to_primitive (Obj kvs) =
     (if own kvs (js ''toString'') \<noteq> None then Inl NotPrimitive
      else Inr (PStr (js ''[object Object]'')))"
| "join_from [] = Inr []"
| "join_from (x # xs) =
     (case elem_string x of
        Inl e \<Rightarrow> Inl e
      | Inr s \<Rightarrow>
          (if xs = [] then Inr s
           else (case join_from xs of Inl e \<Rightarrow> Inl e | Inr r \<Rightarrow> Inr (s @ js '','' @ r))))"
| "elem_string Undefined = Inr []"
| "elem_string Null = Inr []"
| "elem_string (Bool b) = Inr (prim_string (PBool b))"
| "elem_string (Num n) = Inr (num_string n)"
| "elem_string (Str s) = Inr s"
| "elem_string (Arr xs) = join_from xs"
| "elem_string (Obj kvs) =
     (if own kvs (js ''toString'') \<noteq> None then Inl NotPrimitive
      else Inr (js ''[object Object]''))"

definition to_string :: "jsval \<Rightarrow> type_error + jsstring" where
  "to_string v = (case to_primitive v of Inl e \<Rightarrow> Inl e | Inr p \<Rightarrow> Inr (prim_string p))"

text \<open>
  \<^verbatim>\<open>a + b\<close>: both operands become primitives, left first. If either is a string the
  result is the concatenation of their strings; otherwise both become numbers
  (\<^verbatim>\<open>undefined\<close> is \<^verbatim>\<open>NaN\<close>, \<^verbatim>\<open>null\<close> is 0, \<^verbatim>\<open>true\<close> is 1) and are added.
\<close>

fun numeric :: "prim \<Rightarrow> jsnum option" where
  "numeric PUndefined = Some NaN"
| "numeric PNull = Some (Fin 0)"
| "numeric (PBool b) = Some (Fin (if b then 1 else 0))"
| "numeric (PNum n) = Some n"
| "numeric (PStr s) = None"

fun num_add :: "jsnum \<Rightarrow> jsnum \<Rightarrow> jsnum" where
  "num_add (Fin a) (Fin b) = Fin (a + b)"
| "num_add x y = NaN"

definition prim_add :: "prim \<Rightarrow> prim \<Rightarrow> prim" where
  "prim_add a b =
     (case (numeric a, numeric b) of
        (Some x, Some y) \<Rightarrow> PNum (num_add x y)
      | _ \<Rightarrow> PStr (prim_string a @ prim_string b))"

definition js_add :: "jsval \<Rightarrow> jsval \<Rightarrow> type_error + prim" where
  "js_add a b =
     (case to_primitive a of
        Inl e \<Rightarrow> Inl e
      | Inr pa \<Rightarrow>
          (case to_primitive b of
             Inl e \<Rightarrow> Inl e
           | Inr pb \<Rightarrow> Inr (prim_add pa pb)))"

subsection \<open>The page state\<close>

text \<open>
  The content of the summary region. The script assigns \<^verbatim>\<open>summaryContainer.innerHTML\<close> one
  of three texts: the empty string, the fixed "No comments were analyzed." block, and
  the "Analysis Summary" block whose three \<^verbatim>\<open>stat\<close> rows show the interpolated strings of
  \<^verbatim>\<open>positive\<close>, \<^verbatim>\<open>negative\<close> and \<^verbatim>\<open>total\<close>, labelled "Positive Comments", "Negative
  Comments" and "Total Comments Analyzed".
\<close>

datatype summary =
    SummaryEmpty
  | SummaryNoComments
  | SummaryStats jsstring jsstring jsstring

text \<open>
  The configuration passed to \<^verbatim>\<open>new Chart\<close>: a pie with the labels, the two values read
  from the data, and the two colours. The tooltip label callback (lines 119 to
  125) runs inside Chart.js, on a total that Chart.js supplies, with floating-point
  division and \<^verbatim>\<open>toFixed\<close>; it is not modelled.
\<close>

record pie =
  pie_labels :: "jsstring list"
  pie_data :: "jsval list"
  pie_backgroundColor :: "jsstring list"

record request =
  req_url :: jsstring
  req_method :: jsstring
  req_content_type :: jsstring
  req_body_url :: jsstring

text \<open>
  What the page does to the outside, in order: requests sent, chart instances
  constructed and destroyed (an instance is named by the number of instances constructed
  before it), and what is written to the console.
\<close>

datatype event =
    FetchIssued request
  | ChartCreated nat pie
  | ChartDestroyed nat
  | ConsoleError exn

record ui =
  urlInput_value :: jsstring
  errorMessage_textContent :: jsstring
  resultsContainer_display :: jsstring
  summaryContainer_innerHTML :: summary
  analyzeButton_disabled :: bool
  analyzeButton_innerHTML :: jsstring
  sentimentChart :: "nat option"
  chart_count :: nat
  live_charts :: "nat list"
  log :: "event list"

text \<open>
  \<open>sentimentChart\<close> is the module variable (\<open>None\<close> is \<^verbatim>\<open>null\<close>); \<open>chart_count\<close> counts the
  instances constructed so far and \<open>live_charts\<close> lists those not yet destroyed.
  \<^verbatim>\<open>destroy()\<close> on an instance that is already destroyed changes nothing but is still a
  call, so it is still logged. The Chart.js constructor and \<^verbatim>\<open>destroy\<close> are taken not to
  throw.
\<close>

definition chart_destroy :: "nat \<Rightarrow> ui \<Rightarrow> ui" where
  "chart_destroy i s =
     s\<lparr>live_charts := removeAll i (live_charts s), log := log s @ [ChartDestroyed i]\<rparr>"

definition chart_new :: "pie \<Rightarrow> ui \<Rightarrow> ui" where
  "chart_new cfg s =
     s\<lparr>sentimentChart := Some (chart_count s),
       chart_count := Suc (chart_count s),
       live_charts := live_charts s @ [chart_count s],
       log := log s @ [ChartCreated (chart_count s) cfg]\<rparr>"

text \<open>
  The statement \<^verbatim>\<open>if (sentimentChart) { sentimentChart.destroy(); }\<close>, which occurs twice
  (lines 96 to 98 and 147 to 149). It leaves the variable as it is.
\<close>

definition destroy_current :: "ui \<Rightarrow> ui" where
  "destroy_current s =
     (case sentimentChart s of None \<Rightarrow> s | Some c \<Rightarrow> chart_destroy c s)"

subsection \<open>UI helper functions (lines 134 to 150)\<close>

definition setLoadingState :: "bool \<Rightarrow> ui \<Rightarrow> ui" where
  \<open>setLoadingState isLoading s =
     s\<lparr>analyzeButton_disabled := isLoading,
       analyzeButton_innerHTML :=
         (if isLoading then js ''<i class="fa-solid fa-spinner fa-spin"></i> Analyzing...''
          else js ''Analyze'')\<rparr>\<close>

definition showError :: "jsstring \<Rightarrow> ui \<Rightarrow> ui" where
  "showError message s = s\<lparr>errorMessage_textContent := message\<rparr>"

definition clearResults :: "ui \<Rightarrow> ui" where
  "clearResults s =
     destroy_current
       (s\<lparr>errorMessage_textContent := [],
          resultsContainer_display := js ''none'',
          summaryContainer_innerHTML := SummaryEmpty\<rparr>)"

subsection \<open>Rendering (lines 60 to 131)\<close>

text \<open>
  A function that can throw returns \<open>Inl (e, s)\<close>: the exception together with the state
  it leaves behind, since the assignments made before the throw stay.
\<close>

definition pie_config :: "jsval \<Rightarrow> jsval \<Rightarrow> pie" where
  "pie_config p n =
     \<lparr>pie_labels = [js ''Positive'', js ''Negative''],
      pie_data = [p, n],
      pie_backgroundColor = [js ''#28a745'', js ''#dc3545'']\<rparr>"

definition createOrUpdateChart :: "jsval \<Rightarrow> ui \<Rightarrow> (exn \<times> ui) + ui" where
  "createOrUpdateChart data s =
     (let s1 = destroy_current s
      in case get_prop data (js ''positive'') of
           Inl e \<Rightarrow> Inl (TypeErr e, s1)
         | Inr p \<Rightarrow>
             (case get_prop data (js ''negative'') of
                Inl e \<Rightarrow> Inl (TypeErr e, s1)
              | Inr n \<Rightarrow> Inr (chart_new (pie_config p n) s1)))"

definition displayResults :: "jsval \<Rightarrow> ui \<Rightarrow> (exn \<times> ui) + ui" where
  "displayResults data s =
     (let s1 = s\<lparr>resultsContainer_display := js ''flex''\<rparr>
      in if data = Null \<or> data = Undefined then Inl (TypeErr NullDestructure, s1)
         else
           (case get_prop data (js ''positive'') of
              Inl e \<Rightarrow> Inl (TypeErr e, s1)
            | Inr positive \<Rightarrow>
           (case get_prop data (js ''negative'') of
              Inl e \<Rightarrow> Inl (TypeErr e, s1)
            | Inr negative \<Rightarrow>
           (case js_add positive negative of
              Inl e \<Rightarrow> Inl (TypeErr e, s1)
            | Inr total' \<Rightarrow>
                if total' = PNum (Fin 0)
                then Inr (s1\<lparr>summaryContainer_innerHTML := SummaryNoComments\<rparr>)
                else
                  (case to_string positive of
                     Inl e \<Rightarrow> Inl (TypeErr e, s1)
                   | Inr ps \<Rightarrow>
                  (case to_string negative of
                     Inl e \<Rightarrow> Inl (TypeErr e, s1)
                   | Inr ns \<Rightarrow>
                       createOrUpdateChart data
                         (s1\<lparr>summaryContainer_innerHTML :=
                               SummaryStats ps ns (prim_string total')\<rparr>)))))))"

subsection \<open>The click handler (lines 21 to 54)\<close>

text \<open>
  What the network answers to the request: \<^verbatim>\<open>fetch\<close> rejects with an error that has a
  description, or a response arrives with a status and a body that \<^verbatim>\<open>response.json()\<close>
  either parses or rejects with a description of its own (an empty or non-JSON body).
  \<^verbatim>\<open>response.ok\<close> is true for the statuses 200 to 299.
\<close>

datatype body = Unparseable jsstring | Parsed jsval

datatype outcome = FetchRejected jsstring | Responded nat body

definition response_ok :: "nat \<Rightarrow> bool" where
  "response_ok status \<longleftrightarrow> 200 \<le> status \<and> status \<le> 299"

definition analyze_request :: "jsstring \<Rightarrow> request" where
  "analyze_request url =
     \<lparr>req_url = js ''http://127.0.0.1:8000/analyze'',
      req_method = js ''POST'',
      req_content_type = js ''application/json'',
      req_body_url = url\<rparr>"

text \<open>
  The handler is asynchronous. Its first part runs to the call of \<^verbatim>\<open>fetch\<close> (lines 22 to
  37) and returns the state in which the request leaves, together with the request;
  \<open>None\<close> means that the handler returned at line 25 without sending anything.
\<close>

definition handleAnalysis_begin :: "ui \<Rightarrow> ui \<times> request option" where
  "handleAnalysis_begin s =
     (let url = trim (urlInput_value s)
      in if url = [] then (showError (js ''Please paste a YouTube video URL.'') s, None)
         else
           (let s1 = clearResults (setLoadingState True s);
                r = analyze_request url
            in (s1\<lparr>log := log s1 @ [FetchIssued r]\<rparr>, Some r)))"

text \<open>The body of \<^verbatim>\<open>try\<close> after the request has left (lines 33 to 46).\<close>

definition process_response :: "outcome \<Rightarrow> ui \<Rightarrow> (exn \<times> ui) + ui" where
  "process_response out s =
     (case out of
        FetchRejected m \<Rightarrow> Inl (ErrorObj m, s)
      | Responded status b \<Rightarrow>
          (case b of
             Unparseable m \<Rightarrow> Inl (ErrorObj m, s)
           | Parsed data \<Rightarrow>
               if \<not> response_ok status
               then
                 (case get_prop data (js ''detail'') of
                    Inl e \<Rightarrow> Inl (TypeErr e, s)
                  | Inr detail \<Rightarrow>
                      (case to_string (if truthy detail then detail
                                       else Str (js ''An unknown error occurred.'')) of
                         Inl e \<Rightarrow> Inl (TypeErr e, s)
                       | Inr m \<Rightarrow> Inl (ErrorObj m, s)))
               else displayResults data s))"

text \<open>\<^verbatim>\<open>catch\<close> and \<^verbatim>\<open>finally\<close> (lines 48 to 53).\<close>

definition handleAnalysis_settle :: "(type_error \<Rightarrow> jsstring) \<Rightarrow> outcome \<Rightarrow> ui \<Rightarrow> ui" where
  "handleAnalysis_settle eng out s =
     setLoadingState False
       (case process_response out s of
          Inr s' \<Rightarrow> s'
        | Inl (error, s') \<Rightarrow>
            showError (js ''Error: '' @ message_of eng error)
              (s'\<lparr>log := log s' @ [ConsoleError error]\<rparr>))"

text \<open>
  One click. \<open>net\<close> is the answer of the network if a request is sent; \<open>None\<close> is a
  request that never settles, which leaves the handler suspended at its \<^verbatim>\<open>await\<close>.
\<close>

definition handleAnalysis :: "(type_error \<Rightarrow> jsstring) \<Rightarrow> outcome option \<Rightarrow> ui \<Rightarrow> ui" where
  "handleAnalysis eng net s =
     (case handleAnalysis_begin s of
        (s1, None) \<Rightarrow> s1
      | (s1, Some r) \<Rightarrow>
          (case net of None \<Rightarrow> s1 | Some out \<Rightarrow> handleAnalysis_settle eng out s1))"

subsection \<open>Chart instances over time\<close>

text \<open>
  The instances alive after a sequence of events, and the property that no prefix of the
  sequence leaves more than one alive.
\<close>

fun alive_step :: "nat list \<Rightarrow> event \<Rightarrow> nat list" where
  "alive_step live (ChartCreated i cfg) = live @ [i]"
| "alive_step live (ChartDestroyed i) = removeAll i live"
| "alive_step live e = live"

definition alive_after :: "event list \<Rightarrow> nat list" where
  "alive_after evs = foldl alive_step [] evs"

definition at_most_one_alive_throughout :: "event list \<Rightarrow> bool" where
  "at_most_one_alive_throughout evs \<longleftrightarrow>
     list_all (\<lambda>n. length (alive_after (take n evs)) \<le> 1) [0..<Suc (length evs)]"

text \<open>
  The invariant of the page: a live instance is the one \<open>sentimentChart\<close> refers to, and
  the state agrees with the history.
\<close>

definition chart_inv :: "ui \<Rightarrow> bool" where
  "chart_inv s \<longleftrightarrow>
     (live_charts s = [] \<or> (\<exists>c. sentimentChart s = Some c \<and> live_charts s = [c]))
     \<and> alive_after (log s) = live_charts s
     \<and> at_most_one_alive_throughout (log s)"

text \<open>
  Sequences of operations: \<^verbatim>\<open>createOrUpdateChart\<close>, \<^verbatim>\<open>clearResults\<close>, and a click after the
  user has typed a value, with the network's answer.
\<close>

datatype op = Present jsval | Clear | Click jsstring "outcome option"

fun state_of :: "(exn \<times> ui) + ui \<Rightarrow> ui" where
  "state_of (Inl (e, s)) = s"
| "state_of (Inr s) = s"

fun perform :: "(type_error \<Rightarrow> jsstring) \<Rightarrow> ui \<Rightarrow> op \<Rightarrow> ui" where
  "perform eng s (Present data) = state_of (createOrUpdateChart data s)"
| "perform eng s Clear = clearResults s"
| "perform eng s (Click v net) = handleAnalysis eng net (s\<lparr>urlInput_value := v\<rparr>)"

definition run :: "(type_error \<Rightarrow> jsstring) \<Rightarrow> op list \<Rightarrow> ui \<Rightarrow> ui" where
  "run eng ops s = foldl (perform eng) s ops"

subsection \<open>Concrete inputs\<close>

text \<open>
  The page as the \<^verbatim>\<open>DOMContentLoaded\<close> handler leaves it (line 12: no chart), with empty
  regions, and the messages of one engine (V8) for the \<^verbatim>\<open>TypeError\<close>s.
\<close>

definition page_loaded :: ui where
  "page_loaded =
     \<lparr>urlInput_value = [],
      errorMessage_textContent = [],
      resultsContainer_display = [],
      summaryContainer_innerHTML = SummaryEmpty,
      analyzeButton_disabled = False,
      analyzeButton_innerHTML = js ''Analyze'',
      sentimentChart = None,
      chart_count = 0,
      live_charts = [],
      log = []\<rparr>"

fun v8_message :: "type_error \<Rightarrow> jsstring" where
  "v8_message (NullProperty k) =
     js ''Cannot read properties of null (reading '' @ [0x27] @ k @ [0x27] @ js '')''"
| "v8_message NullDestructure =
     js ''Cannot destructure property '' @ [0x27] @ js ''positive'' @ [0x27]
       @ js '' of '' @ [0x27] @ js ''data'' @ [0x27] @ js '' as it is null.''"
| "v8_message NotPrimitive = js ''Cannot convert object to primitive value''"

definition result_model :: "nat \<Rightarrow> nat \<Rightarrow> jsval" where
  "result_model p n =
     Obj [(js ''positive'', Num (Fin (int p))), (js ''negative'', Num (Fin (int n)))]"



definition url_typed :: ui where
  "url_typed = page_loaded\<lparr>urlInput_value := js ''https://youtu.be/abc''\<rparr>"

definition results_shown :: ui where
  "results_shown =
     handleAnalysis v8_message (Some (Responded 200 (Parsed (result_model 10 5)))) url_typed"

section \<open>Auxiliary facts\<close>

subsection \<open>Trimming and the two ways through the first part of the handler\<close>

lemma dropWhile_all_iff: "(\<forall>x\<in>set (dropWhile P xs). P x) \<longleftrightarrow> (\<forall>x\<in>set xs. P x)"
proof
  assume a: "\<forall>x\<in>set (dropWhile P xs). P x"
  have "dropWhile P xs = []"
  proof (rule ccontr)
    assume ne: "dropWhile P xs \<noteq> []"
    then have "\<not> P (hd (dropWhile P xs))" by (rule hd_dropWhile)
    moreover have "hd (dropWhile P xs) \<in> set (dropWhile P xs)" using ne by simp
    ultimately show False using a by blast
  qed
  then show "\<forall>x\<in>set xs. P x" by (simp add: dropWhile_eq_Nil_conv)
next
  assume "\<forall>x\<in>set xs. P x"
  then show "\<forall>x\<in>set (dropWhile P xs). P x" by (meson set_dropWhileD)
qed

lemma trim_empty_iff: "trim v = [] \<longleftrightarrow> (\<forall>c\<in>set v. isWhiteSpace c)"
proof -
  have "trim v = [] \<longleftrightarrow> (\<forall>c\<in>set (rev (dropWhile isWhiteSpace v)). isWhiteSpace c)"
    by (simp add: trim_def dropWhile_eq_Nil_conv)
  also have "\<dots> \<longleftrightarrow> (\<forall>c\<in>set v. isWhiteSpace c)"
    by (simp add: dropWhile_all_iff)
  finally show ?thesis .
qed

lemma begin_empty:
  "trim (urlInput_value s) = [] \<Longrightarrow>
   handleAnalysis_begin s = (showError (js ''Please paste a YouTube video URL.'') s, None)"
  by (simp add: handleAnalysis_begin_def)

lemma begin_nonempty:
  "trim (urlInput_value s) \<noteq> [] \<Longrightarrow>
   handleAnalysis_begin s =
     ((clearResults (setLoadingState True s))
        \<lparr>log := log (clearResults (setLoadingState True s))
                 @ [FetchIssued (analyze_request (trim (urlInput_value s)))]\<rparr>,
      Some (analyze_request (trim (urlInput_value s))))"
  by (simp add: handleAnalysis_begin_def Let_def)

subsection \<open>Chart instances and the history\<close>

lemma alive_after_Nil: "alive_after [] = []"
  by (simp add: alive_after_def)

lemma alive_after_snoc: "alive_after (evs @ [e]) = alive_step (alive_after evs) e"
  by (simp add: alive_after_def)

lemma throughout_iff:
  "at_most_one_alive_throughout evs \<longleftrightarrow> (\<forall>n\<le>length evs. length (alive_after (take n evs)) \<le> 1)"
  by (auto simp: at_most_one_alive_throughout_def list_all_iff less_Suc_eq_le)

lemma throughout_Nil: "at_most_one_alive_throughout []"
  by (simp add: throughout_iff alive_after_Nil)

lemma throughout_snoc:
  "at_most_one_alive_throughout (evs @ [e]) \<longleftrightarrow>
     at_most_one_alive_throughout evs \<and> length (alive_after (evs @ [e])) \<le> 1"
proof
  assume a: "at_most_one_alive_throughout (evs @ [e])"
  have "length (alive_after (take n evs)) \<le> 1" if "n \<le> length evs" for n
  proof -
    from that have "take n (evs @ [e]) = take n evs" by simp
    moreover from that have "n \<le> length (evs @ [e])" by simp
    with a have "length (alive_after (take n (evs @ [e]))) \<le> 1"
      unfolding throughout_iff by blast
    ultimately show ?thesis by simp
  qed
  moreover from a have "length (alive_after (take (Suc (length evs)) (evs @ [e]))) \<le> 1"
    unfolding throughout_iff by (metis length_append_singleton order_refl)
  ultimately show "at_most_one_alive_throughout evs \<and> length (alive_after (evs @ [e])) \<le> 1"
    by (simp add: throughout_iff)
next
  assume b: "at_most_one_alive_throughout evs \<and> length (alive_after (evs @ [e])) \<le> 1"
  show "at_most_one_alive_throughout (evs @ [e])"
    unfolding throughout_iff
  proof (intro allI impI)
    fix n assume "n \<le> length (evs @ [e])"
    then consider "n \<le> length evs" | "n = Suc (length evs)" by fastforce
    then show "length (alive_after (take n (evs @ [e]))) \<le> 1"
    proof cases
      case 1
      then have "take n (evs @ [e]) = take n evs" by simp
      with b 1 show ?thesis by (simp add: throughout_iff)
    next
      case 2
      then have "take n (evs @ [e]) = evs @ [e]" by simp
      with b show ?thesis by simp
    qed
  qed
qed

lemma chart_inv_live_le: "chart_inv s \<Longrightarrow> length (live_charts s) \<le> 1"
  by (auto simp: chart_inv_def)

lemma chart_inv_destroy:
  assumes "chart_inv s" and "sentimentChart s = Some c"
  shows "chart_inv (chart_destroy c s)" and "live_charts (chart_destroy c s) = []"
  using assms
  by (auto simp: chart_inv_def chart_destroy_def alive_after_snoc throughout_snoc)

lemma chart_inv_new:
  assumes "chart_inv s" and "live_charts s = []"
  shows "chart_inv (chart_new cfg s)"
  using assms
  by (auto simp: chart_inv_def chart_new_def alive_after_snoc throughout_snoc)

lemma chart_inv_dom:
  assumes "chart_inv s"
    and "sentimentChart s' = sentimentChart s" and "live_charts s' = live_charts s"
    and "log s' = log s"
  shows "chart_inv s'"
  using assms by (simp add: chart_inv_def)

lemma chart_inv_log_other:
  assumes "chart_inv s" and "alive_step (live_charts s) e = live_charts s"
  shows "chart_inv (s\<lparr>log := log s @ [e]\<rparr>)"
  using assms
  by (auto simp: chart_inv_def alive_after_snoc throughout_snoc)

lemma chart_inv_destroy_current:
  assumes "chart_inv s"
  shows "chart_inv (destroy_current s)" and "live_charts (destroy_current s) = []"
proof -
  show "chart_inv (destroy_current s)"
    using assms by (auto simp: destroy_current_def chart_inv_destroy split: option.splits)
  show "live_charts (destroy_current s) = []"
    using assms
    by (cases "sentimentChart s") (auto simp: destroy_current_def chart_inv_destroy chart_inv_def)
qed

lemma chart_inv_clearResults:
  assumes "chart_inv s"
  shows "chart_inv (clearResults s)" and "live_charts (clearResults s) = []"
proof -
  let ?s1 = "s\<lparr>errorMessage_textContent := [], resultsContainer_display := js ''none'',
                summaryContainer_innerHTML := SummaryEmpty\<rparr>"
  have i: "chart_inv ?s1" using assms by (simp add: chart_inv_def)
  have c: "clearResults s = destroy_current ?s1"
    by (simp add: clearResults_def)
  show "chart_inv (clearResults s)" using i c chart_inv_destroy_current(1) by simp
  show "live_charts (clearResults s) = []" using i c chart_inv_destroy_current(2) by simp
qed

lemma chart_inv_createOrUpdateChart:
  assumes "chart_inv s"
  shows "chart_inv (state_of (createOrUpdateChart data s))"
proof -
  have r: "chart_inv (destroy_current s)" "live_charts (destroy_current s) = []"
    using assms by (rule chart_inv_destroy_current)+
  have "createOrUpdateChart data s =
      (case get_prop data (js ''positive'') of
           Inl e \<Rightarrow> Inl (TypeErr e, destroy_current s)
         | Inr p \<Rightarrow>
             (case get_prop data (js ''negative'') of
                Inl e \<Rightarrow> Inl (TypeErr e, destroy_current s)
              | Inr n \<Rightarrow> Inr (chart_new (pie_config p n) (destroy_current s))))"
    by (simp add: createOrUpdateChart_def Let_def)
  then show ?thesis using r
    by (auto split: sum.splits simp: chart_inv_new)
qed

lemma chart_inv_displayResults:
  assumes "chart_inv s"
  shows "chart_inv (state_of (displayResults data s))"
proof -
  have i1: "chart_inv (s\<lparr>resultsContainer_display := js ''flex''\<rparr>)"
    using assms by (simp add: chart_inv_def)
  have i2: "chart_inv (s\<lparr>resultsContainer_display := js ''flex'',
                           summaryContainer_innerHTML := x\<rparr>)" for x
    using assms by (simp add: chart_inv_def)
  show ?thesis
    unfolding displayResults_def Let_def
    using i1 i2 by (auto split: sum.splits simp: chart_inv_createOrUpdateChart)
qed

lemma chart_inv_process_response:
  assumes "chart_inv s"
  shows "chart_inv (state_of (process_response out s))"
  unfolding process_response_def
  using assms
  by (auto split: outcome.splits body.splits sum.splits simp: chart_inv_displayResults)

lemma chart_inv_setLoadingState: "chart_inv s \<Longrightarrow> chart_inv (setLoadingState b s)"
  by (simp add: chart_inv_def setLoadingState_def)

lemma chart_inv_showError: "chart_inv s \<Longrightarrow> chart_inv (showError m s)"
  by (simp add: chart_inv_def showError_def)

lemma chart_inv_settle:
  assumes "chart_inv s"
  shows "chart_inv (handleAnalysis_settle eng out s)"
proof (cases "process_response out s")
  case (Inl p)
  obtain e s' where p: "p = (e, s')" by (cases p)
  with Inl assms chart_inv_process_response [of s out] have "chart_inv s'" by simp
  then have "chart_inv (s'\<lparr>log := log s' @ [ConsoleError e]\<rparr>)"
    by (rule chart_inv_log_other) simp
  then show ?thesis
    using Inl p
    by (simp add: handleAnalysis_settle_def chart_inv_setLoadingState chart_inv_showError)
next
  case (Inr s')
  with assms chart_inv_process_response [of s out] have "chart_inv s'" by simp
  then show ?thesis using Inr
    by (simp add: handleAnalysis_settle_def chart_inv_setLoadingState)
qed

lemma chart_inv_begin:
  assumes "chart_inv s"
  shows "chart_inv (fst (handleAnalysis_begin s))"
proof (cases "trim (urlInput_value s) = []")
  case True
  then show ?thesis using assms by (simp add: begin_empty chart_inv_showError)
next
  case False
  have "chart_inv (clearResults (setLoadingState True s))"
    using assms by (simp add: chart_inv_setLoadingState chart_inv_clearResults)
  then have "chart_inv ((clearResults (setLoadingState True s))
        \<lparr>log := log (clearResults (setLoadingState True s))
                 @ [FetchIssued (analyze_request (trim (urlInput_value s)))]\<rparr>)"
    by (rule chart_inv_log_other) simp
  then show ?thesis using False by (simp add: begin_nonempty)
qed

lemma chart_inv_handleAnalysis:
  assumes "chart_inv s"
  shows "chart_inv (handleAnalysis eng net s)"
proof -
  obtain s1 r where b: "handleAnalysis_begin s = (s1, r)" by (cases "handleAnalysis_begin s")
  with chart_inv_begin [OF assms] have "chart_inv s1" by simp
  then show ?thesis using b
    by (auto simp: handleAnalysis_def chart_inv_settle split: option.splits)
qed

lemma chart_inv_perform:
  assumes "chart_inv s"
  shows "chart_inv (perform eng s x)"
proof (cases x)
  case (Present data)
  then show ?thesis using assms by (simp add: chart_inv_createOrUpdateChart)
next
  case Clear
  then show ?thesis using assms by (simp add: chart_inv_clearResults)
next
  case (Click v net)
  have "chart_inv (s\<lparr>urlInput_value := v\<rparr>)" using assms by (simp add: chart_inv_def)
  then show ?thesis using Click by (simp add: chart_inv_handleAnalysis)
qed

lemma chart_inv_run: "chart_inv s \<Longrightarrow> chart_inv (run eng ops s)"
  unfolding run_def
  by (induction ops arbitrary: s) (simp_all add: chart_inv_perform)

lemma chart_inv_page_loaded: "chart_inv page_loaded"
  by (simp add: chart_inv_def page_loaded_def alive_after_Nil throughout_Nil)

text \<open>Every state the page can reach from its start satisfies the invariant.\<close>

lemma chart_inv_reachable: "chart_inv (run eng ops page_loaded)"
  using chart_inv_page_loaded by (rule chart_inv_run)

subsection \<open>Projections of the state\<close>

lemma get_prop_defined:
  "data \<noteq> Null \<Longrightarrow> data \<noteq> Undefined \<Longrightarrow> \<exists>v. get_prop data k = Inr v"
  by (cases data) simp_all

lemma createOrUpdateChart_defined:
  assumes "data \<noteq> Null" and "data \<noteq> Undefined"
  shows "createOrUpdateChart data s =
           Inr (chart_new (pie_config (projr (get_prop data (js ''positive'')))
                                      (projr (get_prop data (js ''negative''))))
                  (destroy_current s))"
proof -
  obtain p where p: "get_prop data (js ''positive'') = Inr p"
    using assms get_prop_defined by blast
  obtain n where n: "get_prop data (js ''negative'') = Inr n"
    using assms get_prop_defined by blast
  show ?thesis by (simp add: createOrUpdateChart_def Let_def p n)
qed

lemma log_destroy_current:
  "log (destroy_current s) =
     log s @ (case sentimentChart s of None \<Rightarrow> [] | Some c \<Rightarrow> [ChartDestroyed c])"
  by (simp add: destroy_current_def chart_destroy_def split: option.splits)

lemma chart_count_destroy_current: "chart_count (destroy_current s) = chart_count s"
  by (simp add: destroy_current_def chart_destroy_def split: option.splits)

lemma sentimentChart_destroy_current: "sentimentChart (destroy_current s) = sentimentChart s"
  by (simp add: destroy_current_def chart_destroy_def split: option.splits)

lemma present_twice:
  assumes inv: "chart_inv s"
    and d1: "d1 \<noteq> Null" "d1 \<noteq> Undefined" and d2: "d2 \<noteq> Null" "d2 \<noteq> Undefined"
  defines "s1 \<equiv> state_of (createOrUpdateChart d1 s)"
  defines "s2 \<equiv> state_of (createOrUpdateChart d2 s1)"
  shows "live_charts s1 = [chart_count s]"
    and "live_charts s2 = [Suc (chart_count s)]"
    and "sentimentChart s2 = Some (Suc (chart_count s))"
    and "log s2 = log s
            @ (case sentimentChart s of None \<Rightarrow> [] | Some c \<Rightarrow> [ChartDestroyed c])
            @ [ChartCreated (chart_count s)
                 (pie_config (projr (get_prop d1 (js ''positive'')))
                             (projr (get_prop d1 (js ''negative'')))),
               ChartDestroyed (chart_count s),
               ChartCreated (Suc (chart_count s))
                 (pie_config (projr (get_prop d2 (js ''positive'')))
                             (projr (get_prop d2 (js ''negative''))))]"
proof -
  let ?c1 = "pie_config (projr (get_prop d1 (js ''positive''))) (projr (get_prop d1 (js ''negative'')))"
  let ?c2 = "pie_config (projr (get_prop d2 (js ''positive''))) (projr (get_prop d2 (js ''negative'')))"
  have e1: "s1 = chart_new ?c1 (destroy_current s)"
    by (simp add: s1_def createOrUpdateChart_defined [OF d1])
  have e2: "s2 = chart_new ?c2 (destroy_current s1)"
    by (simp add: s2_def createOrUpdateChart_defined [OF d2])
  have l0: "live_charts (destroy_current s) = []"
    using inv by (rule chart_inv_destroy_current(2))
  show l1: "live_charts s1 = [chart_count s]"
    by (simp add: e1 chart_new_def l0 chart_count_destroy_current)
  have r1: "sentimentChart s1 = Some (chart_count s)"
    by (simp add: e1 chart_new_def chart_count_destroy_current)
  have c1: "chart_count s1 = Suc (chart_count s)"
    by (simp add: e1 chart_new_def chart_count_destroy_current)
  have i1: "chart_inv s1"
    unfolding s1_def using inv by (rule chart_inv_createOrUpdateChart)
  have l1': "live_charts (destroy_current s1) = []"
    using i1 by (rule chart_inv_destroy_current(2))
  show "live_charts s2 = [Suc (chart_count s)]"
    by (simp add: e2 chart_new_def l1' chart_count_destroy_current c1)
  show "sentimentChart s2 = Some (Suc (chart_count s))"
    by (simp add: e2 chart_new_def chart_count_destroy_current c1)
  have g1: "log s1 = log s
      @ (case sentimentChart s of None \<Rightarrow> [] | Some c \<Rightarrow> [ChartDestroyed c])
      @ [ChartCreated (chart_count s) ?c1]"
    by (simp add: e1 chart_new_def log_destroy_current chart_count_destroy_current)
  have "log s2 = log s1 @ [ChartDestroyed (chart_count s), ChartCreated (Suc (chart_count s)) ?c2]"
    by (simp add: e2 chart_new_def log_destroy_current chart_count_destroy_current c1 r1)
  then show "log s2 = log s
            @ (case sentimentChart s of None \<Rightarrow> [] | Some c \<Rightarrow> [ChartDestroyed c])
            @ [ChartCreated (chart_count s) ?c1,
               ChartDestroyed (chart_count s),
               ChartCreated (Suc (chart_count s)) ?c2]"
    by (simp add: g1)
qed

lemma get_prop_result_model:
  "get_prop (result_model p n) (js ''positive'') = Inr (Num (Fin (int p)))"
  "get_prop (result_model p n) (js ''negative'') = Inr (Num (Fin (int n)))"
  by (simp_all add: result_model_def own_def js_def)

lemma result_model_defined: "result_model p n \<noteq> Null" "result_model p n \<noteq> Undefined"
  by (simp_all add: result_model_def)

lemma clearResults_fields:
  "errorMessage_textContent (clearResults s) = []"
  "resultsContainer_display (clearResults s) = js ''none''"
  "summaryContainer_innerHTML (clearResults s) = SummaryEmpty"
  "analyzeButton_disabled (clearResults s) = analyzeButton_disabled s"
  "sentimentChart (clearResults s) = sentimentChart s"
  "chart_count (clearResults s) = chart_count s"
  "log (clearResults s) =
     log s @ (case sentimentChart s of None \<Rightarrow> [] | Some c \<Rightarrow> [ChartDestroyed c])"
  by (simp_all add: clearResults_def destroy_current_def chart_destroy_def split: option.splits)

lemma setLoadingState_fields:
  "errorMessage_textContent (setLoadingState b s) = errorMessage_textContent s"
  "resultsContainer_display (setLoadingState b s) = resultsContainer_display s"
  "summaryContainer_innerHTML (setLoadingState b s) = summaryContainer_innerHTML s"
  "analyzeButton_disabled (setLoadingState b s) = b"
  "sentimentChart (setLoadingState b s) = sentimentChart s"
  "chart_count (setLoadingState b s) = chart_count s"
  "live_charts (setLoadingState b s) = live_charts s"
  "log (setLoadingState b s) = log s"
  by (simp_all add: setLoadingState_def)

lemma chart_inv_results_shown: "chart_inv results_shown"
  unfolding results_shown_def url_typed_def
  by (intro chart_inv_handleAnalysis chart_inv_dom [OF chart_inv_page_loaded]) simp_all

lemma results_shown_value:
  "results_shown =
     \<lparr>urlInput_value = js ''https://youtu.be/abc'',
      errorMessage_textContent = [],
      resultsContainer_display = js ''flex'',
      summaryContainer_innerHTML = SummaryStats (js ''10'') (js ''5'') (js ''15''),
      analyzeButton_disabled = False,
      analyzeButton_innerHTML = js ''Analyze'',
      sentimentChart = Some 0,
      chart_count = 1,
      live_charts = [0],
      log = [FetchIssued (analyze_request (js ''https://youtu.be/abc'')),
             ChartCreated 0 (pie_config (Num (Fin 10)) (Num (Fin 5)))]\<rparr>"
  by code_simp

subsection \<open>Decimal rendering and the sum of two counts\<close>






subsection \<open>The second part of the handler\<close>











section \<open>The claims\<close>

text \<open>
  Claim C1. When the value of the URL input is empty or consists of white space only, a
  click does nothing but put the text "Please paste a YouTube video URL." into the error
  region: the handler returns before any request is sent, and every other part of the page
  state, the history included, is unchanged, whatever the network would have answered.
\<close>

theorem empty_input_error_no_request:
  assumes "list_all isWhiteSpace (urlInput_value s)"
  shows "handleAnalysis eng net s =
           s\<lparr>errorMessage_textContent := js ''Please paste a YouTube video URL.''\<rparr>
         \<and> snd (handleAnalysis_begin s) = None
         \<and> log (handleAnalysis eng net s) = log s"
proof -
  from assms have "trim (urlInput_value s) = []" by (simp add: trim_empty_iff list_all_iff)
  then have b: "handleAnalysis_begin s =
      (showError (js ''Please paste a YouTube video URL.'') s, None)"
    by (rule begin_empty)
  then show ?thesis by (simp add: handleAnalysis_def showError_def)
qed

theorem empty_input_error_no_request_witness:
  "list_all isWhiteSpace
     (urlInput_value (results_shown\<lparr>urlInput_value := [0x20, 0x09, 0xA0, 0x3000]\<rparr>))
   \<and> errorMessage_textContent
        (handleAnalysis v8_message (Some (Responded 200 (Parsed (result_model 1 2))))
           (results_shown\<lparr>urlInput_value := [0x20, 0x09, 0xA0, 0x3000]\<rparr>))
       = js ''Please paste a YouTube video URL.''
   \<and> log (handleAnalysis v8_message (Some (Responded 200 (Parsed (result_model 1 2))))
           (results_shown\<lparr>urlInput_value := [0x20, 0x09, 0xA0, 0x3000]\<rparr>))
       = [FetchIssued (analyze_request (js ''https://youtu.be/abc'')),
          ChartCreated 0 (pie_config (Num (Fin 10)) (Num (Fin 5)))]"
proof -
  have h: "list_all isWhiteSpace
     (urlInput_value (results_shown\<lparr>urlInput_value := [0x20, 0x09, 0xA0, 0x3000]\<rparr>))"
    by (simp add: isWhiteSpace_def)
  show ?thesis
    using h empty_input_error_no_request [OF h, of v8_message
        "Some (Responded 200 (Parsed (result_model 1 2)))"]
    by (simp add: results_shown_value)
qed

text \<open>
  Claim C2. For an input that is not empty after trimming, the Analyze button is disabled
  in the state in which the request leaves, it stays disabled for as long as the request
  has not settled, and it is enabled again when the attempt completes, whatever the
  outcome: a transport failure, any response with any body, and also when the processing
  of the response throws.
\<close>

theorem disabled_while_loading:
  assumes "trim (urlInput_value s) \<noteq> []"
  shows "snd (handleAnalysis_begin s) = Some (analyze_request (trim (urlInput_value s)))
       \<and> analyzeButton_disabled (fst (handleAnalysis_begin s))
       \<and> handleAnalysis eng None s = fst (handleAnalysis_begin s)
       \<and> \<not> analyzeButton_disabled (handleAnalysis eng (Some out) s)"
proof -
  note b = begin_nonempty [OF assms]
  have d: "analyzeButton_disabled (clearResults (setLoadingState True s))"
    by (simp add: clearResults_def destroy_current_def chart_destroy_def setLoadingState_def
        split: option.splits)
  have e: "\<not> analyzeButton_disabled (handleAnalysis_settle eng out s1)" for s1
    by (simp add: handleAnalysis_settle_def setLoadingState_def)
  show ?thesis using d e by (simp add: b handleAnalysis_def)
qed

theorem disabled_while_loading_witness:
  "trim (urlInput_value url_typed) \<noteq> []
   \<and> analyzeButton_disabled (fst (handleAnalysis_begin url_typed))
   \<and> analyzeButton_disabled (handleAnalysis v8_message None url_typed)
   \<and> process_response (Responded 200 (Parsed Null)) (fst (handleAnalysis_begin url_typed))
       = Inl (TypeErr NullDestructure,
              (fst (handleAnalysis_begin url_typed))\<lparr>resultsContainer_display := js ''flex''\<rparr>)
   \<and> \<not> analyzeButton_disabled
         (handleAnalysis v8_message (Some (Responded 200 (Parsed Null))) url_typed)"
proof -
  have h: "trim (urlInput_value url_typed) \<noteq> []" by code_simp
  have p: "process_response (Responded 200 (Parsed Null)) s1
       = Inl (TypeErr NullDestructure, s1\<lparr>resultsContainer_display := js ''flex''\<rparr>)" for s1
    by (simp add: process_response_def response_ok_def displayResults_def)
  show ?thesis
    using h p disabled_while_loading [OF h, of v8_message "Responded 200 (Parsed Null)"]
    by simp
qed












text \<open>
  Claim C7. From a state that satisfies the page invariant, two calls of
  \<^verbatim>\<open>createOrUpdateChart\<close> in a row leave exactly one instance alive, the second one, and
  the history shows the first instance destroyed before the second is constructed. During
  any sequence of operations (chart updates, clearing, clicks with any input and any
  answer of the network) no more than one instance is ever alive.
\<close>

theorem one_live_chart:
  assumes "chart_inv s"
  shows "live_charts (state_of (createOrUpdateChart (result_model p2 n2)
                        (state_of (createOrUpdateChart (result_model p1 n1) s))))
           = [Suc (chart_count s)]
       \<and> log (state_of (createOrUpdateChart (result_model p2 n2)
                        (state_of (createOrUpdateChart (result_model p1 n1) s))))
           = log s
             @ (case sentimentChart s of None \<Rightarrow> [] | Some c \<Rightarrow> [ChartDestroyed c])
             @ [ChartCreated (chart_count s) (pie_config (Num (Fin (int p1))) (Num (Fin (int n1)))),
                ChartDestroyed (chart_count s),
                ChartCreated (Suc (chart_count s)) (pie_config (Num (Fin (int p2))) (Num (Fin (int n2))))]
       \<and> length (live_charts (run eng ops s)) \<le> 1
       \<and> at_most_one_alive_throughout (log (run eng ops s))"
proof -
  have r: "chart_inv (run eng ops s)" using assms by (rule chart_inv_run)
  from r have "length (live_charts (run eng ops s)) \<le> 1" by (rule chart_inv_live_le)
  moreover from r have "at_most_one_alive_throughout (log (run eng ops s))"
    by (simp add: chart_inv_def)
  moreover note present_twice(2,4) [OF assms result_model_defined [of p1 n1] result_model_defined [of p2 n2]]
  ultimately show ?thesis by (simp add: get_prop_result_model)
qed

theorem one_live_chart_witness:
  "chart_inv page_loaded
   \<and> live_charts (state_of (createOrUpdateChart (result_model 3 4)
                        (state_of (createOrUpdateChart (result_model 10 5) page_loaded)))) = [1]
   \<and> log (state_of (createOrUpdateChart (result_model 3 4)
                        (state_of (createOrUpdateChart (result_model 10 5) page_loaded))))
       = [ChartCreated 0 (pie_config (Num (Fin 10)) (Num (Fin 5))),
          ChartDestroyed 0,
          ChartCreated 1 (pie_config (Num (Fin 3)) (Num (Fin 4)))]
   \<and> at_most_one_alive_throughout
        (log (run v8_message
               [Click (js ''https://youtu.be/abc'') (Some (Responded 200 (Parsed (result_model 10 5)))),
                Present (result_model 3 4), Clear, Clear, Present (result_model 1 0)]
               page_loaded))"
proof -
  have h: "chart_inv page_loaded" by (rule chart_inv_page_loaded)
  have c: "chart_count page_loaded = 0" "sentimentChart page_loaded = None" "log page_loaded = []"
    by (simp_all add: page_loaded_def)
  show ?thesis
    using h one_live_chart [OF h, of 3 4 10 5 v8_message
        "[Click (js ''https://youtu.be/abc'') (Some (Responded 200 (Parsed (result_model 10 5)))),
                Present (result_model 3 4), Clear, Clear, Present (result_model 1 0)]"]
    by (simp add: c)
qed

text \<open>
  Claim C8, evaluated on the code. With one chart alive (instance 0, after the counts 10
  and 5 were rendered), \<^verbatim>\<open>clearResults\<close> destroys the instance, but \<open>sentimentChart\<close> still
  refers to it afterwards, and a second \<^verbatim>\<open>clearResults\<close> calls \<^verbatim>\<open>destroy\<close> on it again. Two
  clicks whose requests fail in transport do just that: the variable still refers to
  instance 0 and the history holds two calls of its \<^verbatim>\<open>destroy\<close>.
\<close>

theorem clearResults_keeps_reference:
  "sentimentChart results_shown = Some 0 \<and> live_charts results_shown = [0]
   \<and> sentimentChart (clearResults results_shown) = Some 0
   \<and> live_charts (clearResults results_shown) = []
   \<and> log (clearResults (clearResults results_shown))
       = log (clearResults results_shown) @ [ChartDestroyed 0]
   \<and> sentimentChart
        (run v8_message
           [Click (js ''https://youtu.be/abc'') (Some (FetchRejected (js ''Failed to fetch''))),
            Click (js ''https://youtu.be/abc'') (Some (FetchRejected (js ''Failed to fetch'')))]
           results_shown) = Some 0
   \<and> count_list
        (log (run v8_message
           [Click (js ''https://youtu.be/abc'') (Some (FetchRejected (js ''Failed to fetch''))),
            Click (js ''https://youtu.be/abc'') (Some (FetchRejected (js ''Failed to fetch'')))]
           results_shown))
        (ChartDestroyed 0) = 2"
  by code_simp

text \<open>
  Claim C10. For an input that is not empty after trimming, the state in which the request
  leaves has an empty error text, an empty summary, a hidden results region and no live
  chart, and the request is the last event of the history, after the chart's destruction.
\<close>

theorem stale_content_cleared_before_request:
  assumes "trim (urlInput_value s) \<noteq> []" and "chart_inv s"
  shows "snd (handleAnalysis_begin s) = Some (analyze_request (trim (urlInput_value s)))
       \<and> errorMessage_textContent (fst (handleAnalysis_begin s)) = []
       \<and> summaryContainer_innerHTML (fst (handleAnalysis_begin s)) = SummaryEmpty
       \<and> resultsContainer_display (fst (handleAnalysis_begin s)) = js ''none''
       \<and> live_charts (fst (handleAnalysis_begin s)) = []
       \<and> log (fst (handleAnalysis_begin s)) =
           log s @ (case sentimentChart s of None \<Rightarrow> [] | Some c \<Rightarrow> [ChartDestroyed c])
                 @ [FetchIssued (analyze_request (trim (urlInput_value s)))]"
proof -
  note b = begin_nonempty [OF assms(1)]
  have "chart_inv (setLoadingState True s)" using assms(2) by (rule chart_inv_setLoadingState)
  then have l: "live_charts (clearResults (setLoadingState True s)) = []"
    by (rule chart_inv_clearResults(2))
  show ?thesis
    by (simp add: b l clearResults_fields setLoadingState_fields)
qed

theorem stale_content_cleared_before_request_witness:
  "trim (urlInput_value results_shown) \<noteq> [] \<and> chart_inv results_shown
   \<and> errorMessage_textContent (fst (handleAnalysis_begin results_shown)) = []
   \<and> summaryContainer_innerHTML results_shown = SummaryStats (js ''10'') (js ''5'') (js ''15'')
   \<and> summaryContainer_innerHTML (fst (handleAnalysis_begin results_shown)) = SummaryEmpty
   \<and> live_charts results_shown = [0]
   \<and> live_charts (fst (handleAnalysis_begin results_shown)) = []
   \<and> log (fst (handleAnalysis_begin results_shown)) =
        [FetchIssued (analyze_request (js ''https://youtu.be/abc'')),
         ChartCreated 0 (pie_config (Num (Fin 10)) (Num (Fin 5))),
         ChartDestroyed 0,
         FetchIssued (analyze_request (js ''https://youtu.be/abc''))]"
proof -
  have h: "trim (urlInput_value results_shown) \<noteq> []" by code_simp
  have t: "trim (urlInput_value results_shown) = js ''https://youtu.be/abc''" by code_simp
  show ?thesis
    using h chart_inv_results_shown
      stale_content_cleared_before_request [OF h chart_inv_results_shown]
    by (simp add: t) (simp add: results_shown_value)
qed

end
